theory Spec2Isabelle
  imports Complex_Main "HOL-Library.Word"
begin

section \<open>Translation settings\<close>

text \<open>
  Both \<^verbatim>\<open>TranslationOverlay.vue\<close> and the settings page (\<^verbatim>\<open>TranslationSettings\<close>) hold
  the participant's settings in a reactive object with the same nine fields. JavaScript
  numbers are modelled as reals: the components only store, compare and forward them.
\<close>

record translation_settings =
  textTranslationEnabled :: bool
  voiceTranslationEnabled :: bool
  originalVoiceVolume :: real
  translatedVoiceVolume :: real
  preferredVoiceId :: string
  voiceSpeed :: real
  subtitlePosition :: string
  subtitleFontSize :: real
  subtitleBackgroundOpacity :: real

text \<open>The object literal passed to \<^verbatim>\<open>reactive(...)\<close> in both components.\<close>

definition initial_settings :: translation_settings where
  "initial_settings =
     \<lparr> textTranslationEnabled = True,
       voiceTranslationEnabled = False,
       originalVoiceVolume = 0.3,
       translatedVoiceVolume = 0.8,
       preferredVoiceId = '''',
       voiceSpeed = 1.0,
       subtitlePosition = ''bottom'',
       subtitleFontSize = 16,
       subtitleBackgroundOpacity = 0.7 \<rparr>"

text \<open>
  The body of \<^verbatim>\<open>GET /api/translation/settings\<close>, as far as the components read it: each
  of the nine keys is present or absent. Keys the components never read are left out.
\<close>

record settings_json =
  json_textTranslationEnabled :: "bool option"
  json_voiceTranslationEnabled :: "bool option"
  json_originalVoiceVolume :: "real option"
  json_translatedVoiceVolume :: "real option"
  json_preferredVoiceId :: "string option"
  json_voiceSpeed :: "real option"
  json_subtitlePosition :: "string option"
  json_subtitleFontSize :: "real option"
  json_subtitleBackgroundOpacity :: "real option"

definition empty_json :: settings_json where
  "empty_json =
     \<lparr> json_textTranslationEnabled = None,
       json_voiceTranslationEnabled = None,
       json_originalVoiceVolume = None,
       json_translatedVoiceVolume = None,
       json_preferredVoiceId = None,
       json_voiceSpeed = None,
       json_subtitlePosition = None,
       json_subtitleFontSize = None,
       json_subtitleBackgroundOpacity = None \<rparr>"

text \<open>One own property of the source object: copied when present, as \<^verbatim>\<open>Object.assign\<close> does.\<close>

definition assign_key :: "'v option \<Rightarrow> 'v \<Rightarrow> 'v" where
  "assign_key src tgt = (case src of None \<Rightarrow> tgt | Some v \<Rightarrow> v)"

text \<open>\<^verbatim>\<open>Object.assign(translationSettings, settings)\<close>: no validation, no clamping.\<close>

definition Object_assign :: "translation_settings \<Rightarrow> settings_json \<Rightarrow> translation_settings" where
  "Object_assign target source =
     \<lparr> textTranslationEnabled =
         assign_key (json_textTranslationEnabled source) (textTranslationEnabled target),
       voiceTranslationEnabled =
         assign_key (json_voiceTranslationEnabled source) (voiceTranslationEnabled target),
       originalVoiceVolume =
         assign_key (json_originalVoiceVolume source) (originalVoiceVolume target),
       translatedVoiceVolume =
         assign_key (json_translatedVoiceVolume source) (translatedVoiceVolume target),
       preferredVoiceId =
         assign_key (json_preferredVoiceId source) (preferredVoiceId target),
       voiceSpeed =
         assign_key (json_voiceSpeed source) (voiceSpeed target),
       subtitlePosition =
         assign_key (json_subtitlePosition source) (subtitlePosition target),
       subtitleFontSize =
         assign_key (json_subtitleFontSize source) (subtitleFontSize target),
       subtitleBackgroundOpacity =
         assign_key (json_subtitleBackgroundOpacity source) (subtitleBackgroundOpacity target) \<rparr>"

text \<open>
  What an awaited \<^verbatim>\<open>fetch\<close> has come to: the promise has not settled (no request carries a
  timeout or an abort signal, so the \<^verbatim>\<open>await\<close> goes on for as long as the server stays
  silent), or it rejects (network failure), or a response arrives with its \<^verbatim>\<open>ok\<close> flag and
  a body; the body is \<open>None\<close> when \<^verbatim>\<open>response.json()\<close> rejects.
\<close>

datatype 'b fetch_result = FetchPending | FetchRejects | Response bool "'b option"

fun settled :: "'b fetch_result \<Rightarrow> bool" where
  "settled FetchPending = False"
| "settled FetchRejects = True"
| "settled (Response ok body) = True"

text \<open>The documented ranges of the bounded settings fields.\<close>

definition in_bounds :: "translation_settings \<Rightarrow> bool" where
  "in_bounds s \<longleftrightarrow>
     0 \<le> originalVoiceVolume s \<and> originalVoiceVolume s \<le> 1 \<and>
     0 \<le> translatedVoiceVolume s \<and> translatedVoiceVolume s \<le> 1 \<and>
     0.5 \<le> voiceSpeed s \<and> voiceSpeed s \<le> 2.0 \<and>
     subtitlePosition s \<in> {''top'', ''bottom'', ''overlay''}"

section \<open>The translation overlay\<close>

record caption =
  speakerId :: string
  originalText :: string
  translatedText :: string
  sourceLanguage :: string
  targetLanguage :: string

text \<open>The payload of a \<^verbatim>\<open>text_translation\<close> message, with the keys the handler reads.\<close>

record text_translation_data =
  speaker_id :: string
  original_text :: string
  translated_text :: string
  source_language :: string
  target_language :: string

type_synonym voice = "string \<times> string \<times> string"

datatype ws_message =
    TextTranslation text_translation_data
  | VoiceTranslation string
  | VoicesList "voice list"
  | SettingsUpdated
  | ErrorMessage string
  | UnknownType string

datatype ready_state = CONNECTING | OPEN | CLOSING | CLOSED

datatype overlay_event = TranslationReady | TranslationError

text \<open>
  The browser functions \<^verbatim>\<open>playTranslatedAudio\<close> calls: \<^verbatim>\<open>atob\<close> returns the char
  codes of the decoded binary string or throws (\<open>None\<close>); \<^verbatim>\<open>decodeAudioData\<close> resolves
  to an audio buffer or rejects (\<open>None\<close>).
\<close>

record 'a platform =
  atob :: "string \<Rightarrow> nat list option"
  decodeAudioData :: "8 word list \<Rightarrow> 'a option"

text \<open>
  The refs of \<^verbatim>\<open>setup()\<close>, followed by what the component has done to the world: the
  pending \<^verbatim>\<open>setTimeout\<close> callbacks of \<^verbatim>\<open>displayTranslation\<close> (due time in ms and the
  captured \<^verbatim>\<open>data.original_text\<close>), the byte arrays handed to \<^verbatim>\<open>decodeAudioData\<close> whose
  promise \<^verbatim>\<open>playTranslatedAudio\<close> is still awaiting, the buffer sources started with the
  gain of their gain node, the bodies of the PUT requests, the settings sent in
  \<^verbatim>\<open>update_settings\<close> messages, and the events emitted to the parent.
\<close>

record 'a overlay_state =
  showSettings :: bool
  currentTranslation :: "caption option"
  availableVoices :: "voice list"
  isPlayingPreview :: bool
  translationWebSocket :: "ready_state option"
  audioContext :: bool
  translationSettings :: translation_settings
  timers :: "(nat \<times> string) list"
  pendingDecodes :: "8 word list list"
  started :: "('a \<times> real) list"
  putBodies :: "translation_settings list"
  wsSent :: "translation_settings list"
  emitted :: "overlay_event list"

definition initial_state :: "'a overlay_state" where
  "initial_state =
     \<lparr> showSettings = False,
       currentTranslation = None,
       availableVoices = [],
       isPlayingPreview = False,
       translationWebSocket = None,
       audioContext = False,
       translationSettings = initial_settings,
       timers = [],
       pendingDecodes = [],
       started = [],
       putBodies = [],
       wsSent = [],
       emitted = [] \<rparr>"

text \<open>
  \<^verbatim>\<open>loadTranslationSettings\<close>: the settings are merged only when the response is ok and its
  body parses; a rejected fetch or a failing \<^verbatim>\<open>json()\<close> is caught and logged. While the
  fetch has not settled nothing has been written.
\<close>

fun loadTranslationSettings :: "settings_json fetch_result \<Rightarrow> 'a overlay_state \<Rightarrow> 'a overlay_state" where
  "loadTranslationSettings FetchPending st = st"
| "loadTranslationSettings FetchRejects st = st"
| "loadTranslationSettings (Response ok body) st =
     (if ok then
        (case body of
           None \<Rightarrow> st
         | Some settings \<Rightarrow>
             st\<lparr>translationSettings := Object_assign (translationSettings st) settings\<rparr>)
      else st)"

fun loadAvailableVoices :: "voice list fetch_result \<Rightarrow> 'a overlay_state \<Rightarrow> 'a overlay_state" where
  "loadAvailableVoices FetchPending st = st"
| "loadAvailableVoices FetchRejects st = st"
| "loadAvailableVoices (Response ok body) st =
     (if ok then
        (case body of
           None \<Rightarrow> st
         | Some voices \<Rightarrow> st\<lparr>availableVoices := voices\<rparr>)
      else st)"

text \<open>
  \<^verbatim>\<open>initializeWebSocket\<close>: the socket is created first, the audio context last; an
  exception at either point is logged and rethrown. \<open>Inl\<close> carries the state the throw
  leaves behind.
\<close>

datatype ws_init = WebSocketThrows | AudioContextThrows | InitOk

fun initializeWebSocket :: "ws_init \<Rightarrow> 'a overlay_state \<Rightarrow> 'a overlay_state + 'a overlay_state" where
  "initializeWebSocket WebSocketThrows st = Inl st"
| "initializeWebSocket AudioContextThrows st = Inl (st\<lparr>translationWebSocket := Some CONNECTING\<rparr>)"
| "initializeWebSocket InitOk st =
     Inr (st\<lparr>translationWebSocket := Some CONNECTING, audioContext := True\<rparr>)"

record init_env =
  settings_fetch :: "settings_json fetch_result"
  voices_fetch :: "voice list fetch_result"
  socket_init :: ws_init

text \<open>
  \<^verbatim>\<open>initializeTranslation\<close> awaits the settings, then the voices, then creates the socket.
  Each step starts only when the one before has returned: while a fetch has not settled,
  the value is the state reached so far, and nothing after the \<^verbatim>\<open>await\<close> has happened.
\<close>

definition initializeTranslation :: "init_env \<Rightarrow> 'a overlay_state \<Rightarrow> 'a overlay_state" where
  "initializeTranslation env st =
     (if settled (settings_fetch env) then
        (let st1 = loadTranslationSettings (settings_fetch env) st
         in if settled (voices_fetch env) then
              (let st2 = loadAvailableVoices (voices_fetch env) st1
               in case initializeWebSocket (socket_init env) st2 of
                    Inr st3 \<Rightarrow> st3\<lparr>emitted := emitted st3 @ [TranslationReady]\<rparr>
                  | Inl st3 \<Rightarrow> st3\<lparr>emitted := emitted st3 @ [TranslationError]\<rparr>)
            else st1)
      else st)"

text \<open>\<^verbatim>\<open>setupMobileOptimizations\<close>, by the window's inner width.\<close>

definition setupMobileOptimizations :: "nat \<Rightarrow> 'a overlay_state \<Rightarrow> 'a overlay_state" where
  "setupMobileOptimizations innerWidth st =
     (if innerWidth \<le> 768 then
        st\<lparr>translationSettings :=
             (translationSettings st)\<lparr>textTranslationEnabled := True,
                                      voiceTranslationEnabled := False\<rparr>\<rparr>
      else st)"

text \<open>\<^verbatim>\<open>onMounted\<close>: the component starts from the initial refs.\<close>

definition onMounted :: "nat \<Rightarrow> init_env \<Rightarrow> 'a overlay_state" where
  "onMounted innerWidth env =
     initializeTranslation env (setupMobileOptimizations innerWidth initial_state)"

text \<open>
  \<^verbatim>\<open>displayTranslation\<close> at time \<open>now\<close> (ms): the caption replaces the current one and a
  callback is scheduled 5000 ms later.
\<close>

definition displayTranslation :: "text_translation_data \<Rightarrow> nat \<Rightarrow> 'a overlay_state \<Rightarrow> 'a overlay_state" where
  "displayTranslation data now st =
     st\<lparr>currentTranslation :=
          Some \<lparr> speakerId = speaker_id data,
                 originalText = original_text data,
                 translatedText = translated_text data,
                 sourceLanguage = source_language data,
                 targetLanguage = target_language data \<rparr>,
        timers := timers st @ [(now + 5000, original_text data)]\<rparr>"

text \<open>The callback given to \<^verbatim>\<open>setTimeout\<close>, with the \<^verbatim>\<open>data.original_text\<close> it closes over.\<close>

definition timer_callback :: "string \<Rightarrow> caption option \<Rightarrow> caption option" where
  "timer_callback text cur =
     (case cur of
        None \<Rightarrow> None
      | Some c \<Rightarrow> if originalText c = text then None else Some c)"

text \<open>
  The event loop up to time \<open>t\<close>: every callback due by then runs, in the order scheduled
  (all delays are equal, so for messages handled in the order of their times that is the
  order of the due times). The \<^verbatim>\<open>orientationchange\<close> listener, which takes the current
  caption away for 50 ms and puts it back, is left out.
\<close>

definition advance :: "nat \<Rightarrow> 'a overlay_state \<Rightarrow> 'a overlay_state" where
  "advance t st =
     st\<lparr>currentTranslation :=
          fold timer_callback (map snd (filter (\<lambda>d. fst d \<le> t) (timers st)))
            (currentTranslation st),
        timers := filter (\<lambda>d. \<not> fst d \<le> t) (timers st)\<rparr>"

text \<open>
  \<^verbatim>\<open>playTranslatedAudio\<close> up to its \<^verbatim>\<open>await\<close>: the guard, the base64 decoding into a
  \<^verbatim>\<open>Uint8Array\<close> (each char code stored modulo 256), and the call of
  \<^verbatim>\<open>decodeAudioData\<close>, whose promise is then awaited. An exception of \<^verbatim>\<open>atob\<close> is caught
  and logged.
\<close>

definition playTranslatedAudio :: "'a platform \<Rightarrow> string \<Rightarrow> 'a overlay_state \<Rightarrow> 'a overlay_state" where
  "playTranslatedAudio pf audio_data st =
     (if \<not> voiceTranslationEnabled (translationSettings st) \<or> \<not> audioContext st then st
      else
        (case atob pf audio_data of
           None \<Rightarrow> st
         | Some audioData \<Rightarrow>
             (let audioArray = map (\<lambda>c. (of_nat c :: 8 word)) audioData
              in st\<lparr>pendingDecodes := pendingDecodes st @ [audioArray]\<rparr>)))"

text \<open>
  \<^verbatim>\<open>playTranslatedAudio\<close> after its \<^verbatim>\<open>await\<close>, when the promise of the \<open>i\<close>-th pending
  decoding settles, in the state the component is in by then: a rejection is caught and
  logged; otherwise a buffer source is created and started behind a gain node whose gain
  is the translated voice volume read at this moment. The guard is not checked again.
  Without an audio context the call of \<^verbatim>\<open>createBufferSource\<close> throws, which is caught.
\<close>

definition playTranslatedAudio_resume :: "'a platform \<Rightarrow> nat \<Rightarrow> 'a overlay_state \<Rightarrow> 'a overlay_state" where
  "playTranslatedAudio_resume pf i st =
     (if i < length (pendingDecodes st) then
        (let audioArray = pendingDecodes st ! i;
             st1 = st\<lparr>pendingDecodes :=
                        take i (pendingDecodes st) @ drop (Suc i) (pendingDecodes st)\<rparr>
         in case decodeAudioData pf audioArray of
              None \<Rightarrow> st1
            | Some decodedAudio \<Rightarrow>
                if audioContext st1 then
                  st1\<lparr>started := started st1 @
                        [(decodedAudio, translatedVoiceVolume (translationSettings st1))]\<rparr>
                else st1)
      else st)"

fun handleWebSocketMessage :: "'a platform \<Rightarrow> ws_message \<Rightarrow> nat \<Rightarrow> 'a overlay_state \<Rightarrow> 'a overlay_state" where
  "handleWebSocketMessage pf (TextTranslation data) now st = displayTranslation data now st"
| "handleWebSocketMessage pf (VoiceTranslation audio_data) now st = playTranslatedAudio pf audio_data st"
| "handleWebSocketMessage pf (VoicesList voices) now st = st\<lparr>availableVoices := voices\<rparr>"
| "handleWebSocketMessage pf SettingsUpdated now st = st"
| "handleWebSocketMessage pf (ErrorMessage message) now st = st"
| "handleWebSocketMessage pf (UnknownType ty) now st = st"

text \<open>A message arriving at time \<open>t\<close>: the callbacks due by then have run.\<close>

definition receive :: "'a platform \<Rightarrow> nat \<times> ws_message \<Rightarrow> 'a overlay_state \<Rightarrow> 'a overlay_state" where
  "receive pf ev st = handleWebSocketMessage pf (snd ev) (fst ev) (advance (fst ev) st)"

definition receive_all :: "'a platform \<Rightarrow> (nat \<times> ws_message) list \<Rightarrow> 'a overlay_state \<Rightarrow> 'a overlay_state" where
  "receive_all pf evs st = fold (receive pf) evs st"

text \<open>
  The caption the template renders: the subtitle container has
  \<^verbatim>\<open>v-if="translationSettings.textTranslationEnabled && currentTranslation"\<close>.
\<close>

definition subtitle_shown :: "'a overlay_state \<Rightarrow> caption option" where
  "subtitle_shown st =
     (if textTranslationEnabled (translationSettings st) then currentTranslation st else None)"

text \<open>
  \<^verbatim>\<open>updateSettings\<close>: the current settings are PUT as they are; a rejected fetch or a
  response that is not ok is caught and logged; otherwise the settings are sent over the
  socket when it is open. The settings object itself is never written.
\<close>

fun updateSettings :: "unit fetch_result \<Rightarrow> 'a overlay_state \<Rightarrow> 'a overlay_state" where
  "updateSettings FetchPending st = st\<lparr>putBodies := putBodies st @ [translationSettings st]\<rparr>"
| "updateSettings FetchRejects st = st\<lparr>putBodies := putBodies st @ [translationSettings st]\<rparr>"
| "updateSettings (Response ok body) st =
     (let st1 = st\<lparr>putBodies := putBodies st @ [translationSettings st]\<rparr>
      in if \<not> ok then st1
         else if translationWebSocket st1 = Some OPEN
              then st1\<lparr>wsSent := wsSent st1 @ [translationSettings st1]\<rparr>
              else st1)"

text \<open>
  The controls of the settings panels, each bound to one field by \<^verbatim>\<open>v-model\<close>. An edit
  names the control and what the user picks on it, so that it carries only values the
  control can deliver: a checkbox its state, a slider the position of its thumb counted
  in steps from \<^verbatim>\<open>min\<close>, a select the option chosen. A slider delivers its number as a
  string; the model keeps the number it denotes. The panels render some controls only
  while text or voice translation is enabled; an edit presupposes that its control is
  there.
\<close>

datatype position = PositionTop | PositionBottom | PositionOverlay

fun position_value :: "position \<Rightarrow> string" where
  "position_value PositionTop = ''top''"
| "position_value PositionBottom = ''bottom''"
| "position_value PositionOverlay = ''overlay''"

text \<open>
  The value of a range input with the given \<^verbatim>\<open>min\<close> and \<^verbatim>\<open>step\<close> and with \<open>steps\<close> steps
  between \<^verbatim>\<open>min\<close> and \<^verbatim>\<open>max\<close>, at thumb position \<open>k\<close>; the thumb does not go beyond
  \<^verbatim>\<open>max\<close>.
\<close>

definition range_value :: "real \<Rightarrow> real \<Rightarrow> nat \<Rightarrow> nat \<Rightarrow> real" where
  "range_value lo step steps k = lo + step * real (min k steps)"

text \<open>
  The option values of the voice select: the empty string for the default voice, then
  the ids of the available voices.
\<close>

definition option_values :: "voice list \<Rightarrow> string list" where
  "option_values voices = '''' # map fst voices"

datatype edit =
    TextToggle bool
  | VoiceToggle bool
  | OriginalVolumeSlider nat
  | TranslatedVolumeSlider nat
  | VoiceSelect nat
  | SpeedSlider nat
  | PositionSelect position
  | FontSizeSlider nat

fun v_model :: "voice list \<Rightarrow> edit \<Rightarrow> translation_settings \<Rightarrow> translation_settings" where
  "v_model voices (TextToggle b) s = s\<lparr>textTranslationEnabled := b\<rparr>"
| "v_model voices (VoiceToggle b) s = s\<lparr>voiceTranslationEnabled := b\<rparr>"
| "v_model voices (OriginalVolumeSlider k) s = s\<lparr>originalVoiceVolume := range_value 0 0.1 10 k\<rparr>"
| "v_model voices (TranslatedVolumeSlider k) s =
     s\<lparr>translatedVoiceVolume := range_value 0 0.1 10 k\<rparr>"
| "v_model voices (VoiceSelect k) s =
     s\<lparr>preferredVoiceId := option_values voices ! min k (length voices)\<rparr>"
| "v_model voices (SpeedSlider k) s = s\<lparr>voiceSpeed := range_value 0.5 0.1 15 k\<rparr>"
| "v_model voices (PositionSelect p) s = s\<lparr>subtitlePosition := position_value p\<rparr>"
| "v_model voices (FontSizeSlider k) s = s\<lparr>subtitleFontSize := range_value 12 1 12 k\<rparr>"

text \<open>Whether the value an edit delivers lies in the documented range of its field.\<close>

fun edit_in_bounds :: "edit \<Rightarrow> bool" where
  "edit_in_bounds (OriginalVolumeSlider k) \<longleftrightarrow>
     0 \<le> range_value 0 0.1 10 k \<and> range_value 0 0.1 10 k \<le> 1"
| "edit_in_bounds (TranslatedVolumeSlider k) \<longleftrightarrow>
     0 \<le> range_value 0 0.1 10 k \<and> range_value 0 0.1 10 k \<le> 1"
| "edit_in_bounds (SpeedSlider k) \<longleftrightarrow>
     0.5 \<le> range_value 0.5 0.1 15 k \<and> range_value 0.5 0.1 15 k \<le> 2.0"
| "edit_in_bounds (PositionSelect p) \<longleftrightarrow> position_value p \<in> {''top'', ''bottom'', ''overlay''}"
| "edit_in_bounds _ \<longleftrightarrow> True"

text \<open>Whether every bounded field present in a stored settings object lies in its range.\<close>

definition json_in_bounds :: "settings_json \<Rightarrow> bool" where
  "json_in_bounds j \<longleftrightarrow>
     (case json_originalVoiceVolume j of None \<Rightarrow> True | Some v \<Rightarrow> 0 \<le> v \<and> v \<le> 1) \<and>
     (case json_translatedVoiceVolume j of None \<Rightarrow> True | Some v \<Rightarrow> 0 \<le> v \<and> v \<le> 1) \<and>
     (case json_voiceSpeed j of None \<Rightarrow> True | Some v \<Rightarrow> 0.5 \<le> v \<and> v \<le> 2.0) \<and>
     (case json_subtitlePosition j of None \<Rightarrow> True
      | Some v \<Rightarrow> v \<in> {''top'', ''bottom'', ''overlay''})"

text \<open>
  A user edit in the overlay's panel: \<^verbatim>\<open>v-model\<close> writes the field, then the control's
  \<^verbatim>\<open>@input\<close>/\<^verbatim>\<open>@change\<close> listener runs \<^verbatim>\<open>updateSettings\<close>.
\<close>

definition overlay_edit :: "edit \<Rightarrow> unit fetch_result \<Rightarrow> 'a overlay_state \<Rightarrow> 'a overlay_state" where
  "overlay_edit e put st =
     updateSettings put
       (st\<lparr>translationSettings := v_model (availableVoices st) e (translationSettings st)\<rparr>)"

section \<open>The settings page\<close>

text \<open>
  The \<^verbatim>\<open>TranslationSettings\<close> component: its settings object, the voices it has loaded,
  the save status banner (type and message key), the due times of the banner's 3000 ms
  timers, and the bodies of its PUT requests.
\<close>

record page_state =
  settings :: translation_settings
  pageVoices :: "voice list"
  saveStatus :: "(string \<times> string) option"
  statusTimers :: "nat list"
  pagePutBodies :: "translation_settings list"

definition initial_page :: page_state where
  "initial_page =
     \<lparr> settings = initial_settings, pageVoices = [], saveStatus = None, statusTimers = [],
       pagePutBodies = [] \<rparr>"

definition showSaveStatus :: "string \<Rightarrow> string \<Rightarrow> nat \<Rightarrow> page_state \<Rightarrow> page_state" where
  "showSaveStatus type message now pg =
     pg\<lparr>saveStatus := Some (type, message), statusTimers := statusTimers pg @ [now + 3000]\<rparr>"

fun loadSettings :: "settings_json fetch_result \<Rightarrow> nat \<Rightarrow> page_state \<Rightarrow> page_state" where
  "loadSettings FetchPending now pg = pg"
| "loadSettings FetchRejects now pg = showSaveStatus ''error'' ''translation.load_error'' now pg"
| "loadSettings (Response ok body) now pg =
     (if ok then
        (case body of
           None \<Rightarrow> showSaveStatus ''error'' ''translation.load_error'' now pg
         | Some data \<Rightarrow> pg\<lparr>settings := Object_assign (settings pg) data\<rparr>)
      else pg)"

text \<open>The settings page's own \<^verbatim>\<open>loadAvailableVoices\<close>.\<close>

fun page_loadAvailableVoices :: "voice list fetch_result \<Rightarrow> page_state \<Rightarrow> page_state" where
  "page_loadAvailableVoices FetchPending pg = pg"
| "page_loadAvailableVoices FetchRejects pg = pg"
| "page_loadAvailableVoices (Response ok body) pg =
     (if ok then
        (case body of
           None \<Rightarrow> pg
         | Some voices \<Rightarrow> pg\<lparr>pageVoices := voices\<rparr>)
      else pg)"

fun saveSettings :: "unit fetch_result \<Rightarrow> nat \<Rightarrow> page_state \<Rightarrow> page_state" where
  "saveSettings FetchPending now pg = pg\<lparr>pagePutBodies := pagePutBodies pg @ [settings pg]\<rparr>"
| "saveSettings FetchRejects now pg =
     showSaveStatus ''error'' ''translation.save_error'' now
       (pg\<lparr>pagePutBodies := pagePutBodies pg @ [settings pg]\<rparr>)"
| "saveSettings (Response ok body) now pg =
     (let pg1 = pg\<lparr>pagePutBodies := pagePutBodies pg @ [settings pg]\<rparr>
      in if ok then showSaveStatus ''success'' ''translation.save_success'' now pg1
         else showSaveStatus ''error'' ''translation.save_error'' now pg1)"

definition page_edit :: "edit \<Rightarrow> unit fetch_result \<Rightarrow> nat \<Rightarrow> page_state \<Rightarrow> page_state" where
  "page_edit e put now pg =
     saveSettings put now (pg\<lparr>settings := v_model (pageVoices pg) e (settings pg)\<rparr>)"

text \<open>The opacity slider, which only the settings page has.\<close>

definition page_opacity_edit :: "nat \<Rightarrow> unit fetch_result \<Rightarrow> nat \<Rightarrow> page_state \<Rightarrow> page_state" where
  "page_opacity_edit k put now pg =
     saveSettings put now
       (pg\<lparr>settings := (settings pg)\<lparr>subtitleBackgroundOpacity := range_value 0.3 0.1 7 k\<rparr>\<rparr>)"

text \<open>
  A request that has settled without an ok answer: the fetch rejects, or the response is
  not ok.
\<close>

fun request_failed :: "'b fetch_result \<Rightarrow> bool" where
  "request_failed FetchPending = False"
| "request_failed FetchRejects = True"
| "request_failed (Response ok body) = (\<not> ok)"


section \<open>The fan-out orchestrator\<close>

text \<open>
  Modelled from the spec: the Translation Fan-Out Orchestrator and the registry snapshot
  it reads belong to the relay, whose implementation is not among the sources. The
  definitions below follow the six steps of the spec's algorithm.
\<close>

record listener_settings =
  textEnabled :: bool
  voiceEnabled :: bool
  preferredVoice :: "string option"
  speed :: real

record participant_channel =
  participantId :: string
  channelLanguage :: string
  channelSettings :: listener_settings

record utterance =
  speaker :: string
  utteranceLanguage :: string
  transcript :: string

datatype 'p envelope =
    TextEnvelope string string string string string
  | VoiceEnvelope string string "string option" 'p

text \<open>
  Modelled from the spec: the two providers the orchestrator calls, each answering with a
  result or failing (\<open>None\<close>, also on a timeout).
\<close>

record 'p providers =
  translate :: "string \<Rightarrow> string \<Rightarrow> string \<Rightarrow> string option"
  synthesize :: "string \<Rightarrow> string \<Rightarrow> string option \<Rightarrow> real \<Rightarrow> 'p option"

text \<open>Modelled from the spec: step 2, the snapshot without the speaker's own channel.\<close>

definition listener_set :: "utterance \<Rightarrow> participant_channel list \<Rightarrow> participant_channel list" where
  "listener_set u snapshot = filter (\<lambda>p. participantId p \<noteq> speaker u) snapshot"

text \<open>
  Modelled from the spec: step 3, the distinct target languages among the listeners with
  text or voice enabled.
\<close>

definition wants_translation :: "participant_channel \<Rightarrow> bool" where
  "wants_translation p \<longleftrightarrow> textEnabled (channelSettings p) \<or> voiceEnabled (channelSettings p)"

definition target_languages :: "participant_channel list \<Rightarrow> string list" where
  "target_languages listeners = remdups (map channelLanguage (filter wants_translation listeners))"

text \<open>
  Modelled from the spec: step 4, one provider call per distinct language; the calls made
  and the cache of their results are built together and live for this utterance only.
\<close>

fun translate_each ::
  "'p providers \<Rightarrow> utterance \<Rightarrow> string list \<Rightarrow>
     (string \<times> string \<times> string) list \<times> (string \<times> string option) list" where
  "translate_each pv u [] = ([], [])"
| "translate_each pv u (l # ls) =
     (let r = translate pv (transcript u) (utteranceLanguage u) l;
          rest = translate_each pv u ls
      in ((transcript u, utteranceLanguage u, l) # fst rest, (l, r) # snd rest))"

text \<open>The cached translation for a language, when its call succeeded.\<close>

definition cached :: "(string \<times> string option) list \<Rightarrow> string \<Rightarrow> string option" where
  "cached cache l = (case map_of cache l of Some (Some t) \<Rightarrow> Some t | _ \<Rightarrow> None)"

text \<open>Modelled from the spec: step 5, a Text Envelope for each listener with text enabled.\<close>

definition text_envelopes ::
  "utterance \<Rightarrow> (string \<times> string option) list \<Rightarrow> participant_channel list \<Rightarrow>
     (string \<times> 'p envelope) list" where
  "text_envelopes u cache listeners =
     concat (map (\<lambda>p.
       if textEnabled (channelSettings p) then
         (case cached cache (channelLanguage p) of
            None \<Rightarrow> []
          | Some t \<Rightarrow>
              [(participantId p,
                TextEnvelope (speaker u) (transcript u) t (utteranceLanguage u) (channelLanguage p))])
       else []) listeners)"

text \<open>
  Modelled from the spec: step 6, one synthesis call per distinct combination of language,
  voice (absent for the provider's default) and speed among the listeners with voice
  enabled, fanned out to every listener with that combination.
\<close>

definition voice_key :: "participant_channel \<Rightarrow> string \<times> string option \<times> real" where
  "voice_key p =
     (channelLanguage p, preferredVoice (channelSettings p), speed (channelSettings p))"

definition voice_keys :: "participant_channel list \<Rightarrow> (string \<times> string option \<times> real) list" where
  "voice_keys listeners =
     remdups (map voice_key (filter (\<lambda>p. voiceEnabled (channelSettings p)) listeners))"

fun synthesize_each ::
  "'p providers \<Rightarrow> utterance \<Rightarrow> (string \<times> string option) list \<Rightarrow> participant_channel list \<Rightarrow>
     (string \<times> string option \<times> real) list \<Rightarrow>
     (string \<times> string \<times> string option \<times> real) list \<times> (string \<times> 'p envelope) list" where
  "synthesize_each pv u cache listeners [] = ([], [])"
| "synthesize_each pv u cache listeners ((l, v, sp) # ks) =
     (let rest = synthesize_each pv u cache listeners ks
      in case cached cache l of
           None \<Rightarrow> rest
         | Some t \<Rightarrow>
             (case synthesize pv t l v sp of
                None \<Rightarrow> ((t, l, v, sp) # fst rest, snd rest)
              | Some payload \<Rightarrow>
                  ((t, l, v, sp) # fst rest,
                   map (\<lambda>p. (participantId p, VoiceEnvelope (speaker u) l v payload))
                     (filter (\<lambda>p. voiceEnabled (channelSettings p) \<and> voice_key p = (l, v, sp))
                        listeners)
                   @ snd rest)))"

record 'p fan_out_result =
  translation_calls :: "(string \<times> string \<times> string) list"
  synthesis_calls :: "(string \<times> string \<times> string option \<times> real) list"
  deliveries :: "(string \<times> 'p envelope) list"

text \<open>
  Modelled from the spec: the processing of one utterance against the snapshot taken for
  it. Nothing is taken from, or kept for, another utterance.
\<close>

definition fan_out :: "'p providers \<Rightarrow> utterance \<Rightarrow> participant_channel list \<Rightarrow> 'p fan_out_result" where
  "fan_out pv u snapshot =
     (let listeners = listener_set u snapshot;
          tr = translate_each pv u (target_languages listeners);
          sy = synthesize_each pv u (snd tr) listeners (voice_keys listeners)
      in \<lparr> translation_calls = fst tr,
           synthesis_calls = fst sy,
           deliveries = text_envelopes u (snd tr) listeners @ snd sy \<rparr>)"

text \<open>
  Modelled from the spec: utterances are processed one after the other, each with its own
  snapshot; the log collects every translation call made.
\<close>

fun process_utterances ::
  "'p providers \<Rightarrow> (utterance \<times> participant_channel list) list \<Rightarrow> (string \<times> string \<times> string) list" where
  "process_utterances pv [] = []"
| "process_utterances pv ((u, snapshot) # rest) =
     translation_calls (fan_out pv u snapshot) @ process_utterances pv rest"

text \<open>The target language of a translation call.\<close>

definition call_target :: "string \<times> string \<times> string \<Rightarrow> string" where
  "call_target c = snd (snd c)"

text \<open>
  The set of target languages the claim speaks of: those of the participants of the
  snapshot other than the speaker that have text or voice translation enabled.
\<close>

definition listener_languages :: "utterance \<Rightarrow> participant_channel list \<Rightarrow> string set" where
  "listener_languages u snapshot =
     set (map channelLanguage
       (filter (\<lambda>p. participantId p \<noteq> speaker u \<and> wants_translation p) snapshot))"


section \<open>Example inputs\<close>

text \<open>
  A browser whose \<^verbatim>\<open>atob\<close> knows one payload (the base64 of the bytes 65, 66, 67) and
  whose decoder hands the bytes back as the audio buffer.
\<close>

definition pf0 :: "nat list platform" where
  "pf0 = \<lparr> atob = (\<lambda>s. if s = ''QUJD'' then Some [65, 66, 67] else None),
           decodeAudioData = (\<lambda>bs. Some (map unat bs)) \<rparr>"

text \<open>A listener who has switched captions off, and one who has switched voice on.\<close>

definition text_off :: "nat list overlay_state" where
  "text_off =
     initial_state\<lparr>translationSettings := initial_settings\<lparr>textTranslationEnabled := False\<rparr>\<rparr>"

definition voice_listener :: "nat list overlay_state" where
  "voice_listener =
     initial_state\<lparr>audioContext := True,
                   translationSettings := initial_settings\<lparr>voiceTranslationEnabled := True\<rparr>\<rparr>"

text \<open>Two speakers saying the same word, and a different sentence.\<close>

definition hello_A :: text_translation_data where
  "hello_A = \<lparr> speaker_id = ''A'', original_text = ''hai'', translated_text = ''yes'',
               source_language = ''ja'', target_language = ''en'' \<rparr>"

definition hello_B :: text_translation_data where
  "hello_B = \<lparr> speaker_id = ''B'', original_text = ''hai'', translated_text = ''yes'',
               source_language = ''ja'', target_language = ''en'' \<rparr>"

definition bye_B :: text_translation_data where
  "bye_B = \<lparr> speaker_id = ''B'', original_text = ''mata ne'', translated_text = ''see you'',
             source_language = ''ja'', target_language = ''en'' \<rparr>"

text \<open>Stored settings with an original volume above 1, and with the top speed.\<close>

definition volume_too_high :: settings_json where
  "volume_too_high = empty_json\<lparr>json_originalVoiceVolume := Some 1.5\<rparr>"

definition top_speed :: settings_json where
  "top_speed = empty_json\<lparr>json_voiceSpeed := Some 2\<rparr>"

text \<open>
  Three initialisations in which the voices arrive and the socket can be created: the
  settings request fails; the settings request gets no answer; the store answers with
  the original volume above 1.
\<close>

definition store_down :: init_env where
  "store_down = \<lparr> settings_fetch = FetchRejects, voices_fetch = Response True (Some []),
                  socket_init = InitOk \<rparr>"

definition store_silent :: init_env where
  "store_silent = \<lparr> settings_fetch = FetchPending, voices_fetch = Response True (Some []),
                    socket_init = InitOk \<rparr>"

definition store_too_high :: init_env where
  "store_too_high = \<lparr> settings_fetch = Response True (Some volume_too_high),
                      voices_fetch = Response True (Some []), socket_init = InitOk \<rparr>"

text \<open>
  The room of the spec's scenario: speaker A (ja); B (en, text and voice, voice V1);
  C (en, text only); D (ko, text and voice, default voice).
\<close>

definition channel :: "string \<Rightarrow> string \<Rightarrow> bool \<Rightarrow> bool \<Rightarrow> string option \<Rightarrow> participant_channel" where
  "channel i l t v pv =
     \<lparr> participantId = i, channelLanguage = l,
       channelSettings = \<lparr> textEnabled = t, voiceEnabled = v, preferredVoice = pv, speed = 1 \<rparr> \<rparr>"

definition room0 :: "participant_channel list" where
  "room0 = [channel ''A'' ''ja'' True False None, channel ''B'' ''en'' True True (Some ''V1''),
            channel ''C'' ''en'' True False None, channel ''D'' ''ko'' True True None]"

definition utt0 :: utterance where
  "utt0 = \<lparr> speaker = ''A'', utteranceLanguage = ''ja'', transcript = ''konnichiwa'' \<rparr>"

definition pv0 :: "nat providers" where
  "pv0 = \<lparr> translate = (\<lambda>t s l. Some (l @ '':'' @ t)),
           synthesize = (\<lambda>t l v sp. Some (length t)) \<rparr>"

lemmas example_defs = pf0_def text_off_def voice_listener_def hello_A_def hello_B_def bye_B_def
  volume_too_high_def top_speed_def store_down_def store_silent_def store_too_high_def
  initial_state_def initial_settings_def empty_json_def

section \<open>The fan-out orchestrator: one translation per language\<close>

lemma count_list_remdups: "count_list (remdups xs) x = (if x \<in> set xs then 1 else 0)"
  by (induction xs) auto

lemma translate_each_calls:
  "fst (translate_each pv u ls) = map (\<lambda>l. (transcript u, utteranceLanguage u, l)) ls"
  by (induction ls) (auto simp: Let_def)

lemma call_targets: "map call_target (map (\<lambda>l. (a, b, l)) ls) = ls"
  by (induction ls) (auto simp: call_target_def)

lemma set_target_languages:
  "set (target_languages (listener_set u snapshot)) = listener_languages u snapshot"
  by (auto simp: target_languages_def listener_set_def listener_languages_def)

lemma fan_out_calls:
  "translation_calls (fan_out pv u snapshot) =
     map (\<lambda>l. (transcript u, utteranceLanguage u, l)) (target_languages (listener_set u snapshot))"
  by (simp add: fan_out_def Let_def translate_each_calls)

lemma fan_out_count:
  "count_list (map call_target (translation_calls (fan_out pv u snapshot))) l =
     (if l \<in> listener_languages u snapshot then 1 else 0)"
proof -
  have "map call_target (translation_calls (fan_out pv u snapshot)) =
          target_languages (listener_set u snapshot)"
    unfolding fan_out_calls by (rule call_targets)
  moreover have "count_list (target_languages (listener_set u snapshot)) l =
          (if l \<in> set (target_languages (listener_set u snapshot)) then 1 else 0)"
    unfolding target_languages_def count_list_remdups by simp
  ultimately show ?thesis by (simp only: set_target_languages)
qed

lemma process_count:
  "count_list (map call_target (process_utterances pv us)) l =
     length (filter (\<lambda>x. l \<in> listener_languages (fst x) (snd x)) us)"
proof (induction us)
  case Nil
  then show ?case by simp
next
  case (Cons x us)
  obtain u snapshot where x: "x = (u, snapshot)" by (cases x)
  show ?case using Cons fan_out_count [of pv u snapshot l] by (simp add: x)
qed

text \<open>
  C1. For one utterance, the number of Translation Provider calls with target language
  \<open>l\<close> is 1 when some listener of the snapshot other than the speaker with text or voice
  enabled has language \<open>l\<close>, however many share it, and 0 otherwise; the calls are exactly
  the transcript with its source language and each such language. Nothing is cached
  across utterances: over a sequence of utterances the calls for \<open>l\<close> number as many as
  the utterances that have a listener for \<open>l\<close>.
\<close>

theorem translation_once_per_language:
  "count_list (map call_target (translation_calls (fan_out pv u snapshot))) l =
     (if l \<in> listener_languages u snapshot then 1 else 0) \<and>
   set (translation_calls (fan_out pv u snapshot)) =
     (\<lambda>l. (transcript u, utteranceLanguage u, l)) ` listener_languages u snapshot \<and>
   count_list (map call_target (process_utterances pv us)) l =
     length (filter (\<lambda>x. l \<in> listener_languages (fst x) (snd x)) us)"
  using fan_out_count process_count
  by (simp add: fan_out_calls flip: set_target_languages)

theorem translation_once_per_language_witness:
  "count_list (map call_target (translation_calls (fan_out pv0 utt0 room0))) ''en'' = 1 \<and>
   count_list (map call_target (translation_calls (fan_out pv0 utt0 room0))) ''ja'' = 0 \<and>
   count_list (map call_target (process_utterances pv0 [(utt0, room0), (utt0, room0)])) ''en'' = 2"
  using translation_once_per_language [of pv0 utt0 room0 "''en''" "[(utt0, room0), (utt0, room0)]"]
    translation_once_per_language [of pv0 utt0 room0 "''ja''" "[]"]
  by (simp add: listener_languages_def wants_translation_def room0_def channel_def utt0_def)


section \<open>The overlay: voice envelopes\<close>

text \<open>
  C10. When voice translation is disabled, or no audio context exists, handling a
  \<^verbatim>\<open>voice_translation\<close> message leaves the whole client state as it was, whatever the
  payload and whatever the browser's decoders would do with it.
\<close>

theorem voice_disabled_no_effect:
  "\<not> voiceTranslationEnabled (translationSettings st) \<or> \<not> audioContext st \<Longrightarrow>
     handleWebSocketMessage pf (VoiceTranslation audio_data) now st = st"
  by (auto simp: playTranslatedAudio_def)

theorem voice_disabled_no_effect_witness:
  "\<not> voiceTranslationEnabled (translationSettings (initial_state :: nat list overlay_state)) \<and>
   handleWebSocketMessage pf0 (VoiceTranslation ''QUJD'') 0 initial_state = initial_state \<and>
   started (handleWebSocketMessage pf0 (VoiceTranslation ''QUJD'') 0 initial_state) = []"
  using voice_disabled_no_effect [of initial_state pf0 "''QUJD''" 0]
  by (simp add: initial_state_def initial_settings_def)

lemma resume_started:
  assumes "i < length (pendingDecodes st)" and "decodeAudioData pf (pendingDecodes st ! i) = Some clip"
    and "audioContext st"
  shows "playTranslatedAudio_resume pf i st =
           st\<lparr>pendingDecodes := take i (pendingDecodes st) @ drop (Suc i) (pendingDecodes st),
              started := started st @ [(clip, translatedVoiceVolume (translationSettings st))]\<rparr>"
  using assms by (simp add: playTranslatedAudio_resume_def Let_def)

text \<open>
  C8. When voice translation is enabled and the audio context exists, a
  \<^verbatim>\<open>voice_translation\<close> message whose payload \<^verbatim>\<open>atob\<close> accepts is copied byte by byte
  into the array handed to \<^verbatim>\<open>decodeAudioData\<close>, and nothing else changes while the
  decoding is awaited. When the decoding of that array succeeds, in whatever state the
  component is by then (still with an audio context), exactly one buffer source starts:
  the decoded audio, at a gain equal to the translated voice volume of the listener's
  settings at that moment. If nothing happened in between, that is the volume at arrival.
\<close>

theorem voice_played_at_translated_volume:
  assumes "voiceTranslationEnabled (translationSettings st)" and "audioContext st"
    and "atob pf audio_data = Some codes"
    and "decodeAudioData pf (map of_nat codes) = Some clip"
  shows "handleWebSocketMessage pf (VoiceTranslation audio_data) now st =
           st\<lparr>pendingDecodes := pendingDecodes st @ [map of_nat codes]\<rparr> \<and>
         (\<forall>st' i. i < length (pendingDecodes st') \<and> pendingDecodes st' ! i = map of_nat codes \<and>
              audioContext st' \<longrightarrow>
            playTranslatedAudio_resume pf i st' =
              st'\<lparr>pendingDecodes := take i (pendingDecodes st') @ drop (Suc i) (pendingDecodes st'),
                  started := started st' @
                    [(clip, translatedVoiceVolume (translationSettings st'))]\<rparr>) \<and>
         playTranslatedAudio_resume pf (length (pendingDecodes st))
             (handleWebSocketMessage pf (VoiceTranslation audio_data) now st) =
           st\<lparr>started := started st @ [(clip, translatedVoiceVolume (translationSettings st))]\<rparr>"
proof (intro conjI allI impI)
  show arrival: "handleWebSocketMessage pf (VoiceTranslation audio_data) now st =
      st\<lparr>pendingDecodes := pendingDecodes st @ [map of_nat codes]\<rparr>"
    using assms by (simp add: playTranslatedAudio_def)
  show "playTranslatedAudio_resume pf (length (pendingDecodes st))
          (handleWebSocketMessage pf (VoiceTranslation audio_data) now st) =
        st\<lparr>started := started st @ [(clip, translatedVoiceVolume (translationSettings st))]\<rparr>"
    unfolding arrival using assms by (simp add: playTranslatedAudio_resume_def Let_def)
next
  fix st' :: "'a overlay_state" and i
  assume "i < length (pendingDecodes st') \<and> pendingDecodes st' ! i = map of_nat codes \<and>
    audioContext st'"
  then show "playTranslatedAudio_resume pf i st' =
      st'\<lparr>pendingDecodes := take i (pendingDecodes st') @ drop (Suc i) (pendingDecodes st'),
          started := started st' @ [(clip, translatedVoiceVolume (translationSettings st'))]\<rparr>"
    using assms(4) by (simp add: resume_started)
qed

text \<open>
  The listener lowers the translated volume to 0.2 while the clip is being decoded: the
  clip starts at 0.2.
\<close>

theorem voice_played_at_translated_volume_witness:
  "handleWebSocketMessage pf0 (VoiceTranslation ''QUJD'') 0 voice_listener =
     voice_listener\<lparr>pendingDecodes := [[65, 66, 67]]\<rparr> \<and>
   started (playTranslatedAudio_resume pf0 0
      (overlay_edit (TranslatedVolumeSlider 2) (Response True None)
         (handleWebSocketMessage pf0 (VoiceTranslation ''QUJD'') 0 voice_listener))) =
     [([65, 66, 67], 0.2)] \<and>
   playTranslatedAudio_resume pf0 0
      (handleWebSocketMessage pf0 (VoiceTranslation ''QUJD'') 0 voice_listener) =
     voice_listener\<lparr>started := [([65, 66, 67], 0.8)]\<rparr>"
  using voice_played_at_translated_volume
    [of voice_listener pf0 "''QUJD''" "[65, 66, 67]" "[65, 66, 67]" 0]
  by (simp add: example_defs playTranslatedAudio_def playTranslatedAudio_resume_def
        overlay_edit_def range_value_def)

text \<open>
  C3. The overlay at a listener with voice translation enabled and an original volume of
  0.3, receiving a voice envelope and decoding it: the only thing that happens is that the
  clip starts at gain 0.8, the translated volume. No handler reads the original volume,
  and nothing is done to the speaker's live audio.
\<close>

theorem original_audio_not_attenuated:
  "playTranslatedAudio_resume pf0 0 (receive pf0 (0, VoiceTranslation ''QUJD'') voice_listener) =
     voice_listener\<lparr>started := [([65, 66, 67], 0.8)]\<rparr> \<and>
   originalVoiceVolume (translationSettings voice_listener) = 0.3"
  by (simp add: example_defs receive_def advance_def playTranslatedAudio_def
        playTranslatedAudio_resume_def)

section \<open>The overlay: captions\<close>

text \<open>
  C9. Whatever caption is displayed, and whoever spoke it, handling a
  \<^verbatim>\<open>text_translation\<close> message makes the message's caption the current one: the single
  caption slot is overwritten unconditionally.
\<close>

theorem caption_last_wins:
  "currentTranslation (receive pf (t, TextTranslation d) st) =
     Some \<lparr> speakerId = speaker_id d, originalText = original_text d,
            translatedText = translated_text d, sourceLanguage = source_language d,
            targetLanguage = target_language d \<rparr>"
  by (simp add: receive_def displayTranslation_def)

theorem caption_last_wins_witness:
  "currentTranslation (receive pf0 (1000, TextTranslation bye_B)
      (receive pf0 (0, TextTranslation hello_A) initial_state)) =
     Some \<lparr> speakerId = ''B'', originalText = ''mata ne'', translatedText = ''see you'',
            sourceLanguage = ''ja'', targetLanguage = ''en'' \<rparr>"
  using caption_last_wins [of pf0 1000 bye_B "receive pf0 (0, TextTranslation hello_A) initial_state"]
  by (simp add: bye_B_def)

lemma handle_settings:
  "translationSettings (handleWebSocketMessage pf m now st) = translationSettings st"
  by (cases m)
     (auto simp: displayTranslation_def playTranslatedAudio_def Let_def split: option.splits)

lemma receive_settings: "translationSettings (receive pf ev st) = translationSettings st"
  by (simp add: receive_def handle_settings advance_def)

lemma receive_all_settings:
  "translationSettings (receive_all pf evs st) = translationSettings st"
  unfolding receive_all_def by (induction evs arbitrary: st) (auto simp: receive_settings)

text \<open>
  C6. A listener whose text translation is disabled is shown no caption: after any
  number of the messages of any run, and at any later moment, the subtitle is not
  rendered. (The messages never change the settings.)
\<close>

theorem text_disabled_no_caption:
  "\<not> textTranslationEnabled (translationSettings st) \<Longrightarrow>
     subtitle_shown (receive_all pf (take n evs) st) = None \<and>
     subtitle_shown (advance t (receive_all pf (take n evs) st)) = None"
  by (simp add: subtitle_shown_def receive_all_settings advance_def)

theorem text_disabled_no_caption_witness:
  "\<not> textTranslationEnabled (translationSettings text_off) \<and>
   subtitle_shown (receive_all pf0 [(0, TextTranslation hello_A)] text_off) = None \<and>
   subtitle_shown (receive_all pf0 [(0, TextTranslation hello_A)] initial_state) \<noteq> None"
  using text_disabled_no_caption [of text_off pf0 1 "[(0, TextTranslation hello_A)]" 0]
  by (simp add: example_defs receive_all_def receive_def advance_def displayTranslation_def
        subtitle_shown_def)

text \<open>
  A superseding caption with another original text outlives the earlier caption's timer
  (due at 5000 ms) and is cleared by its own (due at 8000 ms).
\<close>

lemma different_text_survives:
  "currentTranslation (advance 7999
      (receive_all pf0 [(0, TextTranslation hello_A), (3000, TextTranslation bye_B)] initial_state))
     \<noteq> None \<and>
   currentTranslation (advance 8000
      (receive_all pf0 [(0, TextTranslation hello_A), (3000, TextTranslation bye_B)] initial_state))
     = None"
  by (simp add: example_defs receive_all_def receive_def advance_def displayTranslation_def
        timer_callback_def)

text \<open>
  C4. Speaker A's caption ``hai'' is displayed at 0 ms and superseded at 3000 ms by speaker
  B's caption with the same original text. The superseding caption is still displayed at
  4999 ms; at 5000 ms the timer of the earlier caption clears it, 2000 ms after it
  appeared: the timer's guard compares the original text only.
\<close>

theorem same_text_caption_cleared_early:
  "currentTranslation (advance 4999
      (receive_all pf0 [(0, TextTranslation hello_A), (3000, TextTranslation hello_B)] initial_state)) =
     Some \<lparr> speakerId = ''B'', originalText = ''hai'', translatedText = ''yes'',
            sourceLanguage = ''ja'', targetLanguage = ''en'' \<rparr> \<and>
   currentTranslation (advance 5000
      (receive_all pf0 [(0, TextTranslation hello_A), (3000, TextTranslation hello_B)] initial_state)) =
     None"
  by (simp add: example_defs receive_all_def receive_def advance_def displayTranslation_def
        timer_callback_def)

section \<open>Initialisation and the settings store\<close>

lemma load_failed: "request_failed r \<Longrightarrow> loadTranslationSettings r st = st"
  by (cases r) auto

lemma failed_settled: "request_failed r \<Longrightarrow> settled r"
  by (cases r) auto

lemma voices_settings: "translationSettings (loadAvailableVoices r st) = translationSettings st"
  by (cases r) (auto split: option.splits)

lemma voices_emitted: "emitted (loadAvailableVoices r st) = emitted st"
  by (cases r) (auto split: option.splits)

lemma mobile_initial: "setupMobileOptimizations w initial_state = initial_state"
  by (simp add: setupMobileOptimizations_def initial_state_def initial_settings_def)

lemma mounted_unsettled:
  "\<not> settled (settings_fetch env) \<Longrightarrow> onMounted w env = initial_state"
  by (simp add: onMounted_def mobile_initial initializeTranslation_def)

lemma mounted_failed:
  assumes "request_failed (settings_fetch env)" and "settled (voices_fetch env)"
  shows "onMounted w env =
           (case initializeWebSocket (socket_init env)
                   (loadAvailableVoices (voices_fetch env) initial_state) of
              Inr st3 \<Rightarrow> st3\<lparr>emitted := emitted st3 @ [TranslationReady]\<rparr>
            | Inl st3 \<Rightarrow> st3\<lparr>emitted := emitted st3 @ [TranslationError]\<rparr>)"
  using assms
  by (simp add: onMounted_def mobile_initial initializeTranslation_def Let_def load_failed
        failed_settled)

lemma mounted_failed_settings:
  assumes "request_failed (settings_fetch env)"
  shows "translationSettings (onMounted w env :: 'a overlay_state) = initial_settings"
proof (cases "settled (voices_fetch env)")
  case True
  show ?thesis
    unfolding mounted_failed [OF assms True]
    by (cases "socket_init env") (simp_all add: voices_settings, simp_all add: initial_state_def)
next
  case False
  then show ?thesis
    using assms
    by (simp add: onMounted_def mobile_initial initializeTranslation_def Let_def load_failed
          failed_settled)
       (simp add: initial_state_def)
qed

text \<open>
  C5, as stated, fails: the settings request gets no answer. The component is still
  awaiting it: no socket and no audio context have been created and nothing has been
  emitted, although the socket set-up would succeed.
\<close>

theorem unanswered_settings_request_blocks_start:
  "settings_fetch store_silent = FetchPending \<and>
   socket_init store_silent = InitOk \<and>
   translationWebSocket (onMounted 1024 store_silent :: nat list overlay_state) = None \<and>
   \<not> audioContext (onMounted 1024 store_silent :: nat list overlay_state) \<and>
   emitted (onMounted 1024 store_silent :: nat list overlay_state) = []"
  by (simp add: store_silent_def onMounted_def setupMobileOptimizations_def
        initializeTranslation_def initial_state_def)

text \<open>
  C5, amended. When the settings request fails at mount (the fetch rejects or the
  response is not ok), the settings in force are the initial ones, with text translation
  enabled and voice translation disabled, on any screen width, and the initialisation goes
  on: once the voices request has settled, the overlay reports ready or an error by the
  socket set-up alone, and when that succeeds the socket and the audio context exist. As
  long as the settings request has not settled, the initial settings are in force too,
  but there is no socket, no audio context and no report.
\<close>

theorem settings_unavailable_defaults:
  "(request_failed (settings_fetch env) \<longrightarrow>
      translationSettings (onMounted w env :: 'a overlay_state) = initial_settings \<and>
      textTranslationEnabled (translationSettings (onMounted w env :: 'a overlay_state)) \<and>
      \<not> voiceTranslationEnabled (translationSettings (onMounted w env :: 'a overlay_state)) \<and>
      (settled (voices_fetch env) \<longrightarrow>
         emitted (onMounted w env :: 'a overlay_state) =
           (if socket_init env = InitOk then [TranslationReady] else [TranslationError])) \<and>
      (settled (voices_fetch env) \<and> socket_init env = InitOk \<longrightarrow>
         translationWebSocket (onMounted w env :: 'a overlay_state) = Some CONNECTING \<and>
         audioContext (onMounted w env :: 'a overlay_state))) \<and>
   (\<not> settled (settings_fetch env) \<longrightarrow>
      translationSettings (onMounted w env :: 'a overlay_state) = initial_settings \<and>
      translationWebSocket (onMounted w env :: 'a overlay_state) = None \<and>
      \<not> audioContext (onMounted w env :: 'a overlay_state) \<and>
      emitted (onMounted w env :: 'a overlay_state) = [])"
proof (intro conjI impI)
  assume f: "request_failed (settings_fetch env)"
  show s: "translationSettings (onMounted w env :: 'a overlay_state) = initial_settings"
    by (rule mounted_failed_settings [OF f])
  show "textTranslationEnabled (translationSettings (onMounted w env :: 'a overlay_state))"
    unfolding s by (simp add: initial_settings_def)
  show "\<not> voiceTranslationEnabled (translationSettings (onMounted w env :: 'a overlay_state))"
    unfolding s by (simp add: initial_settings_def)
  {
    assume v: "settled (voices_fetch env)"
    show "emitted (onMounted w env :: 'a overlay_state) =
        (if socket_init env = InitOk then [TranslationReady] else [TranslationError])"
      unfolding mounted_failed [OF f v]
      by (cases "socket_init env") (simp_all add: voices_emitted, simp_all add: initial_state_def)
  }
  {
    assume "settled (voices_fetch env) \<and> socket_init env = InitOk"
    then have v: "settled (voices_fetch env)" and i: "socket_init env = InitOk" by simp_all
    show "translationWebSocket (onMounted w env :: 'a overlay_state) = Some CONNECTING"
      unfolding mounted_failed [OF f v] by (simp add: i)
    show "audioContext (onMounted w env :: 'a overlay_state)"
      unfolding mounted_failed [OF f v] by (simp add: i)
  }
next
  assume u: "\<not> settled (settings_fetch env)"
  show "translationSettings (onMounted w env :: 'a overlay_state) = initial_settings"
    unfolding mounted_unsettled [OF u] by (simp add: initial_state_def)
  show "translationWebSocket (onMounted w env :: 'a overlay_state) = None"
    unfolding mounted_unsettled [OF u] by (simp add: initial_state_def)
  show "\<not> audioContext (onMounted w env :: 'a overlay_state)"
    unfolding mounted_unsettled [OF u] by (simp add: initial_state_def)
  show "emitted (onMounted w env :: 'a overlay_state) = []"
    unfolding mounted_unsettled [OF u] by (simp add: initial_state_def)
qed

theorem settings_unavailable_defaults_witness:
  "request_failed (settings_fetch store_down) \<and>
   settled (voices_fetch store_down) \<and>
   translationSettings (onMounted 1024 store_down :: nat list overlay_state) = initial_settings \<and>
   translationWebSocket (onMounted 1024 store_down :: nat list overlay_state) = Some CONNECTING \<and>
   audioContext (onMounted 1024 store_down :: nat list overlay_state) \<and>
   emitted (onMounted 1024 store_down :: nat list overlay_state) = [TranslationReady]"
  using settings_unavailable_defaults [where 'a = "nat list" and env = store_down and w = 1024]
  by (simp add: store_down_def)

section \<open>Accepting settings\<close>

text \<open>
  C7, as stated, fails: stored settings with an original volume of 1.5 are loaded as they
  are, and the settings then lie outside the documented ranges.
\<close>

theorem load_does_not_clamp:
  "\<not> in_bounds (translationSettings
      (loadTranslationSettings (Response True (Some volume_too_high))
         (initial_state :: nat list overlay_state))) \<and>
   originalVoiceVolume (translationSettings
      (loadTranslationSettings (Response True (Some volume_too_high))
         (initial_state :: nat list overlay_state))) = 1.5"
  by (simp add: example_defs Object_assign_def assign_key_def in_bounds_def)

lemma assign_bounds:
  "in_bounds s \<Longrightarrow> json_in_bounds j \<Longrightarrow> in_bounds (Object_assign s j)"
  by (auto simp: in_bounds_def json_in_bounds_def Object_assign_def assign_key_def
      split: option.splits)

lemma v_model_bounds: "in_bounds s \<Longrightarrow> edit_in_bounds e \<Longrightarrow> in_bounds (v_model voices e s)"
  by (cases e) (auto simp: in_bounds_def)

text \<open>Every value a control can deliver lies in the documented range of its field.\<close>

lemma controls_in_bounds: "edit_in_bounds e"
proof (cases e)
  case (PositionSelect p)
  then show ?thesis by (cases p) simp_all
qed (simp_all add: range_value_def min_def)

lemma updateSettings_settings:
  "translationSettings (updateSettings put st) = translationSettings st"
  by (cases put) (auto simp: Let_def)

lemma saveSettings_settings: "settings (saveSettings put now pg) = settings pg"
  by (cases put) (auto simp: Let_def showSaveStatus_def)

text \<open>
  C7, amended. Neither component clamps: loading copies the stored values and an edit
  writes the delivered value. So after loading stored settings, or after a user edit, in
  the overlay or on the settings page, the bounded fields lie within their documented
  ranges provided the settings before, the stored values and the edited value do.
\<close>

theorem accepted_settings_in_bounds_when_inputs_are:
  assumes "in_bounds (translationSettings st)" and "in_bounds (settings pg)"
    and "json_in_bounds j" and "edit_in_bounds e"
  shows "in_bounds (translationSettings (loadTranslationSettings (Response True (Some j)) st)) \<and>
         in_bounds (settings (loadSettings (Response True (Some j)) now pg)) \<and>
         in_bounds (translationSettings (overlay_edit e put st)) \<and>
         in_bounds (settings (page_edit e put now pg))"
  using assms
  by (simp add: assign_bounds v_model_bounds overlay_edit_def page_edit_def
        updateSettings_settings saveSettings_settings)

theorem accepted_settings_in_bounds_witness:
  "in_bounds (translationSettings (initial_state :: nat list overlay_state)) \<and>
   in_bounds (settings initial_page) \<and>
   json_in_bounds top_speed \<and>
   edit_in_bounds (OriginalVolumeSlider 5) \<and>
   in_bounds (translationSettings (loadTranslationSettings (Response True (Some top_speed))
      (initial_state :: nat list overlay_state))) \<and>
   in_bounds (settings (page_edit (OriginalVolumeSlider 5) (Response True None) 0 initial_page))"
  using accepted_settings_in_bounds_when_inputs_are
    [of "initial_state :: nat list overlay_state" initial_page top_speed
        "OriginalVolumeSlider 5" 0 "Response True None"]
  by (simp add: example_defs initial_page_def in_bounds_def json_in_bounds_def range_value_def)

section \<open>Rejected settings updates\<close>

text \<open>
  From settings within the ranges no edit submits a field outside them: a submitted
  update has such a field only when it was loaded from the store.
\<close>

lemma put_body_in_bounds:
  "in_bounds (translationSettings st) \<Longrightarrow> in_bounds (last (putBodies (overlay_edit e put st)))"
  by (cases put) (simp_all add: overlay_edit_def Let_def v_model_bounds controls_in_bounds)

text \<open>
  C2, as stated, fails. The store answers the mount with an original volume of 1.5,
  which is loaded as it is; the listener then ticks the voice checkbox, and the server
  rejects the update, whose body carries the out-of-range volume. Afterwards voice
  translation is enabled in the overlay, though it was disabled before the update, and
  the original volume is still 1.5: the settings are not those before the update, and
  not valid ones. The settings page does the same.
\<close>

theorem rejected_update_not_rolled_back:
  "request_failed (Response False None :: unit fetch_result) \<and>
   \<not> voiceTranslationEnabled
       (translationSettings (onMounted 1024 store_too_high :: nat list overlay_state)) \<and>
   \<not> in_bounds (last (putBodies
       (overlay_edit (VoiceToggle True) (Response False None)
          (onMounted 1024 store_too_high :: nat list overlay_state)))) \<and>
   voiceTranslationEnabled (translationSettings
       (overlay_edit (VoiceToggle True) (Response False None)
          (onMounted 1024 store_too_high :: nat list overlay_state))) \<and>
   originalVoiceVolume (translationSettings
       (overlay_edit (VoiceToggle True) (Response False None)
          (onMounted 1024 store_too_high :: nat list overlay_state))) = 1.5 \<and>
   \<not> voiceTranslationEnabled
       (settings (loadSettings (Response True (Some volume_too_high)) 0 initial_page)) \<and>
   voiceTranslationEnabled (settings
       (page_edit (VoiceToggle True) (Response False None) 1000
          (loadSettings (Response True (Some volume_too_high)) 0 initial_page))) \<and>
   originalVoiceVolume (settings
       (page_edit (VoiceToggle True) (Response False None) 1000
          (loadSettings (Response True (Some volume_too_high)) 0 initial_page))) = 1.5"
  by (simp add: example_defs initial_page_def in_bounds_def overlay_edit_def page_edit_def
        showSaveStatus_def onMounted_def setupMobileOptimizations_def
        initializeTranslation_def Object_assign_def assign_key_def)

text \<open>
  C2, amended. When the server does not accept an update (the PUT rejects or its response
  is not ok), the client keeps the settings it submitted: all fields, the edited one
  included, hold the values sent in the PUT body; there is no rollback and no partial
  merge. The overlay then sends no \<^verbatim>\<open>update_settings\<close> message over the socket, and the
  settings page shows its error banner.
\<close>

theorem rejected_update_keeps_submitted_settings:
  assumes "request_failed put"
  shows "translationSettings (overlay_edit e put st) =
           v_model (availableVoices st) e (translationSettings st) \<and>
         putBodies (overlay_edit e put st) =
           putBodies st @ [v_model (availableVoices st) e (translationSettings st)] \<and>
         wsSent (overlay_edit e put st) = wsSent st \<and>
         settings (page_edit e put now pg) = v_model (pageVoices pg) e (settings pg) \<and>
         pagePutBodies (page_edit e put now pg) =
           pagePutBodies pg @ [v_model (pageVoices pg) e (settings pg)] \<and>
         saveStatus (page_edit e put now pg) = Some (''error'', ''translation.save_error'')"
  using assms
  by (cases put) (simp_all add: overlay_edit_def page_edit_def showSaveStatus_def Let_def)

theorem rejected_update_keeps_submitted_settings_witness:
  "request_failed (Response False None :: unit fetch_result) \<and>
   translationSettings (overlay_edit (VoiceToggle True) (Response False None)
       (initial_state :: nat list overlay_state)) =
     initial_settings\<lparr>voiceTranslationEnabled := True\<rparr> \<and>
   wsSent (overlay_edit (VoiceToggle True) (Response False None)
       (initial_state :: nat list overlay_state)) = []"
  using rejected_update_keeps_submitted_settings
    [of "Response False None" "VoiceToggle True"
        "initial_state :: nat list overlay_state" 0 initial_page]
  by (simp add: initial_state_def)

end
